theory Spec2Isabelle
  imports Complex_Main "HOL-Library.List_Lexorder" "HOL-Library.Multiset"
begin

section \<open>Metadata records\<close>

text \<open>
  The script \<^verbatim>\<open>check_imported.py\<close> compares DICOM files read with the
  \<^verbatim>\<open>dicom\<close> library. Three kinds of library objects reach \<^verbatim>\<open>compare_dicoms\<close>:
  \<^item> a \<^verbatim>\<open>Dataset\<close>: a dictionary from tags to data elements; iterating it yields
    its data elements in ascending tag order; \<^verbatim>\<open>ds[tag]\<close> raises \<^verbatim>\<open>KeyError\<close> for an
    absent tag;
  \<^item> a \<^verbatim>\<open>DataElement\<close> with attributes \<^verbatim>\<open>tag\<close>, \<^verbatim>\<open>name\<close> and \<^verbatim>\<open>value\<close>;
  \<^item> a value: a \<^verbatim>\<open>Sequence\<close> (a list of datasets), a multi-valued list of
    strings or numbers, or a single string or number.

  A dataset is represented by the list of its elements in iteration order. The script also
  reads the Python attribute \<^verbatim>\<open>name\<close> of a dataset object (line 126); the library
  resolves unknown attributes of a \<^verbatim>\<open>Dataset\<close> through its keyword dictionary and raises
  \<^verbatim>\<open>AttributeError\<close> when there is none, so the attribute is kept as an optional field:
  \<open>None\<close> when the lookup raises.

  A single value is a string, a number or a float that is not a number (NaN). The script
  only tests numbers for equality, so a number (an integer, a finite float or a decimal) is
  represented by its value, a rational.
\<close>

type_synonym tag = "nat \<times> nat"

datatype atom = Str string | Num rat | NaN

datatype element = DataElement (el_tag: tag) (el_name: string) (el_value: val)
  and val = Single atom | MultiValue "atom list" | Sequence "dataset list"
  and dataset = Dataset (name_attr: "string option") (elems: "element list")

text \<open>
  The left argument of \<^verbatim>\<open>compare_dicoms\<close>, when the right one is a dataset, is either the
  dataset read from the other file or an item that \<^verbatim>\<open>zip\<close> took from the value of a left
  element: a dataset (from a sequence), a character (from a string) or a string or number
  (from a multi-valued list).
\<close>

datatype item = IDataset dataset | IChar char | IAtom atom

datatype error =
    WrongEchoTimeException
  | UnboundLocalError
  | AttributeError
  | TypeError
  | IndexError
  | ValueError
  | AssertionError

text \<open>
  The entries that \<^verbatim>\<open>compare_dicoms\<close> writes with \<^verbatim>\<open>logger.error\<close>, one constructor for
  each message template, holding the values that fill the template:
  \<^item> \<open>NoEchoTime\<close>: \<^verbatim>\<open>"{}xnat scan does not have echo time while daris does"\<close>;
  \<^item> \<open>Missing prefix n\<close>: \<^verbatim>\<open>"{}missing {}".format(prefix, daris_elem.name)\<close>;
  \<^item> \<open>SeqLength prefix name lx ld\<close>: \<^verbatim>\<open>"{}mismatching length of '{}' sequence (xnat:{} vs daris:{})"\<close>;
  \<^item> \<open>ValueMismatch prefix name diff\<close>: \<^verbatim>\<open>"{}mismatching value for '{}'{}"\<close>, where
    \<open>diff\<close> is \<open>Some (x, d)\<close> for the text \<^verbatim>\<open>(xnat:{} vs daris:{})\<close> with both values and
    \<open>None\<close> for the empty string.
\<close>

datatype 'p log_entry =
    NoEchoTime
  | Missing 'p string
  | SeqLength 'p string nat nat
  | ValueMismatch 'p string "(val \<times> val) option"

type_synonym 'p outcome = "(error + bool) \<times> 'p log_entry list"

section \<open>The record comparator\<close>

definition echo_tag :: tag where
  "echo_tag = (0x0018, 0x0081)"

text \<open>\<^verbatim>\<open>'.'.join(ns)\<close>\<close>

fun join_dot :: "string list \<Rightarrow> string" where
  "join_dot [] = []"
| "join_dot [s] = s"
| "join_dot (s # t # ts) = s @ ''.'' @ join_dot (t # ts)"

text \<open>\<^verbatim>\<open>ds[tag]\<close> on a dataset: \<open>None\<close> stands for \<^verbatim>\<open>KeyError\<close>.\<close>

definition getitem :: "element list \<Rightarrow> tag \<Rightarrow> element option" where
  "getitem es t = find (\<lambda>e. el_tag e = t) es"

text \<open>\<^verbatim>\<open>len(v)\<close>: a number has no length, \<open>None\<close> stands for \<^verbatim>\<open>TypeError\<close>.\<close>

fun py_len :: "val \<Rightarrow> nat option" where
  "py_len (Single (Str s)) = Some (length s)"
| "py_len (Single (Num n)) = None"
| "py_len (Single NaN) = None"
| "py_len (MultiValue xs) = Some (length xs)"
| "py_len (Sequence ds) = Some (length ds)"

text \<open>The items that \<^verbatim>\<open>zip\<close> takes from a value that has a length.\<close>

fun items_of :: "val \<Rightarrow> item list" where
  "items_of (Single (Str s)) = map IChar s"
| "items_of (Single (Num n)) = []"
| "items_of (Single NaN) = []"
| "items_of (MultiValue xs) = map IAtom xs"
| "items_of (Sequence ds) = map IDataset ds"

text \<open>
  Python's \<^verbatim>\<open>==\<close> on two values, whose negation is the \<^verbatim>\<open>!=\<close> of lines 114 and 140.
  Values of the same content are equal unless a NaN occurs in them: a NaN differs from
  every value, itself included. (Python takes two list items that are the same object as
  equal without comparing them; the values compared here come from two files that were
  read one after the other, so no two of them are the same object.)
\<close>

fun nan_free_element :: "element \<Rightarrow> bool"
  and nan_free_val :: "val \<Rightarrow> bool"
  and nan_free_dataset :: "dataset \<Rightarrow> bool" where
  "nan_free_element (DataElement t n v) = nan_free_val v"
| "nan_free_val (Single a) = (a \<noteq> NaN)"
| "nan_free_val (MultiValue as) = (NaN \<notin> set as)"
| "nan_free_val (Sequence dss) = (\<forall>d \<in> set dss. nan_free_dataset d)"
| "nan_free_dataset (Dataset nm es) = (\<forall>e \<in> set es. nan_free_element e)"

definition py_eq :: "val \<Rightarrow> val \<Rightarrow> bool" where
  "py_eq v w = (v = w \<and> nan_free_val v)"

text \<open>
  Lines 112 to 120. The right dataset is tested for the echo time tag; the left object is
  indexed with the tuple \<^verbatim>\<open>('0018', '0081')\<close>, which raises \<^verbatim>\<open>KeyError\<close> on a dataset
  without the tag and \<^verbatim>\<open>TypeError\<close> on a string or a number. The result is the value of
  \<^verbatim>\<open>match\<close> and the entries logged, or the exception raised.
\<close>

definition echo_check :: "item \<Rightarrow> element list \<Rightarrow> error + (bool \<times> 'p log_entry list)" where
  "echo_check xnat_elem ds =
     (case getitem ds echo_tag of
        None \<Rightarrow> Inr (True, [])
      | Some d \<Rightarrow>
          (case xnat_elem of
             IDataset xs \<Rightarrow>
               (case getitem (elems xs) echo_tag of
                  None \<Rightarrow> Inr (False, [NoEchoTime])
                | Some x \<Rightarrow>
                    if \<not> py_eq (el_value d) (el_value x) then Inl WrongEchoTimeException
                    else Inr (True, []))
           | _ \<Rightarrow> Inl TypeError))"

text \<open>
  Indexing a left object that is no dataset with the tag of a right element (line 123). The
  library's tag is an integer, \<open>group * 65536 + element\<close>. A number is not indexable
  (\<^verbatim>\<open>TypeError\<close>); a string is indexed by position, which raises \<^verbatim>\<open>IndexError\<close> out of
  range and otherwise binds \<^verbatim>\<open>x\<close> to a character, whose attribute \<^verbatim>\<open>value\<close> the recursive
  call then reads (\<^verbatim>\<open>AttributeError\<close>, lines 131 and 140) before it logs anything.
\<close>

definition tag_index :: "tag \<Rightarrow> nat" where
  "tag_index t = fst t * 65536 + snd t"

fun index_other :: "item \<Rightarrow> tag \<Rightarrow> error" where
  "index_other (IChar c) t = (if tag_index t = 0 then AttributeError else IndexError)"
| "index_other (IAtom (Str s)) t = (if tag_index t < length s then AttributeError else IndexError)"
| "index_other (IAtom (Num n)) t = TypeError"
| "index_other (IAtom NaN) t = TypeError"
| "index_other (IDataset xs) t = TypeError"

text \<open>
  Lines 122 to 127 and the evaluation of the argument \<^verbatim>\<open>x\<close> of line 128, for one right
  element \<open>d\<close>. \<open>x\<close> is the binding of the variable \<^verbatim>\<open>x\<close> before the iteration (\<open>None\<close>
  when it is not bound yet), \<open>nm\<close> the attribute \<^verbatim>\<open>name\<close> of the right dataset. The handler
  of \<^verbatim>\<open>KeyError\<close> logs and sets \<^verbatim>\<open>match\<close>, and leaves \<^verbatim>\<open>x\<close> as it was; control falls
  through to line 128. The result is the left element passed to the recursive call, the
  value of \<^verbatim>\<open>match\<close> and the entries logged, or the exception and the entries logged before it.
\<close>

definition bind_x ::
  "item \<Rightarrow> string option \<Rightarrow> element option \<Rightarrow> bool \<Rightarrow> element \<Rightarrow> 'p
     \<Rightarrow> (error \<times> 'p log_entry list) + (element \<times> bool \<times> 'p log_entry list)" where
  "bind_x xnat_elem nm x match d prefix =
     (case xnat_elem of
        IDataset xs \<Rightarrow>
          (case getitem (elems xs) (el_tag d) of
             Some e \<Rightarrow> Inr (e, match, [])
           | None \<Rightarrow>
               (case nm of
                  None \<Rightarrow> Inl (AttributeError, [])
                | Some n \<Rightarrow>
                    (case x of
                       None \<Rightarrow> Inl (UnboundLocalError, [Missing prefix n])
                     | Some e \<Rightarrow> Inr (e, False, [Missing prefix n]))))
      | _ \<Rightarrow> Inl (index_other xnat_elem (el_tag d), []))"

text \<open>Lines 140 to 154: the comparison of two values when the right one is no sequence.\<close>

definition include_diff :: "val \<Rightarrow> val \<Rightarrow> bool" where
  "include_diff xv dv =
     (case py_len xv of
        None \<Rightarrow> True
      | Some lx \<Rightarrow>
          (case py_len dv of
             None \<Rightarrow> True
           | Some ld \<Rightarrow> \<not> (max lx ld > 100)))"

definition compare_scalar :: "val \<Rightarrow> val \<Rightarrow> 'p \<Rightarrow> string list \<Rightarrow> 'p outcome" where
  "compare_scalar xv dv prefix ns =
     (if \<not> py_eq xv dv then
        (Inr False,
         [ValueMismatch prefix (join_dot ns) (if include_diff xv dv then Some (xv, dv) else None)])
      else (Inr True, []))"

text \<open>
  \<^verbatim>\<open>compare_dicoms\<close>, lines 105 to 155. The Python function dispatches on the type of
  its right argument; the model has one function for each type:
  \<^item> \<open>compare_dicoms\<close>: the right argument is a dataset (line 110);
  \<^item> \<open>compare_fields\<close>: the loop of lines 121 to 129 over the remaining right elements,
    with the binding of \<^verbatim>\<open>x\<close> and the value of \<^verbatim>\<open>match\<close>;
  \<^item> \<open>compare_element\<close>: the right argument is a data element (lines 130 to 154); the left
    one is the data element bound to \<^verbatim>\<open>x\<close>;
  \<^item> \<open>compare_items\<close>: the loop of lines 136 to 138 over the zipped items.
  Each returns the boolean or the exception raised, and the entries logged in order.
\<close>

function (sequential) compare_dicoms :: "item \<Rightarrow> dataset \<Rightarrow> 'p \<Rightarrow> string list \<Rightarrow> 'p outcome"
  and compare_fields ::
    "item \<Rightarrow> string option \<Rightarrow> element option \<Rightarrow> bool \<Rightarrow> element list \<Rightarrow> 'p \<Rightarrow> string list
       \<Rightarrow> 'p outcome"
  and compare_element :: "element \<Rightarrow> element \<Rightarrow> 'p \<Rightarrow> string list \<Rightarrow> 'p outcome"
  and compare_items :: "item list \<Rightarrow> dataset list \<Rightarrow> bool \<Rightarrow> 'p \<Rightarrow> string list \<Rightarrow> 'p outcome"
where
  "compare_dicoms xnat_elem (Dataset nm ds) prefix ns =
     (case echo_check xnat_elem ds of
        Inl e \<Rightarrow> (Inl e, [])
      | Inr (match, lg) \<Rightarrow>
          (case compare_fields xnat_elem nm None match ds prefix ns of
             (r, lg') \<Rightarrow> (r, lg @ lg')))"
| "compare_fields xnat_elem nm x match [] prefix ns = (Inr match, [])"
| "compare_fields xnat_elem nm x match (d # ds) prefix ns =
     (case bind_x xnat_elem nm x match d prefix of
        Inl (e, lg) \<Rightarrow> (Inl e, lg)
      | Inr (xe, match', lg) \<Rightarrow>
          (case compare_element xe d prefix (ns @ [el_name d]) of
             (Inl e, lg1) \<Rightarrow> (Inl e, lg @ lg1)
           | (Inr r, lg1) \<Rightarrow>
               (case compare_fields xnat_elem nm (Some xe) (match' \<and> r) ds prefix ns of
                  (res, lg2) \<Rightarrow> (res, lg @ lg1 @ lg2))))"
| "compare_element x (DataElement t n (Sequence dss)) prefix ns =
     (case py_len (el_value x) of
        None \<Rightarrow> (Inl TypeError, [])
      | Some lx \<Rightarrow>
          (case compare_items (items_of (el_value x)) dss True prefix ns of
             (res, lg) \<Rightarrow>
               (res, (if lx \<noteq> length dss then [SeqLength prefix (join_dot ns) lx (length dss)]
                      else []) @ lg)))"
| "compare_element x (DataElement t n (Single a)) prefix ns =
     compare_scalar (el_value x) (Single a) prefix ns"
| "compare_element x (DataElement t n (MultiValue as)) prefix ns =
     compare_scalar (el_value x) (MultiValue as) prefix ns"
| "compare_items (x # xs) (d # ds) match prefix ns =
     (case compare_dicoms x d prefix ns of
        (Inl e, lg) \<Rightarrow> (Inl e, lg)
      | (Inr r, lg) \<Rightarrow>
          (case compare_items xs ds (match \<and> r) prefix ns of
             (res, lg') \<Rightarrow> (res, lg @ lg')))"
| "compare_items [] ds match prefix ns = (Inr match, [])"
| "compare_items xs [] match prefix ns = (Inr match, [])"
  by pat_completeness auto

termination
  by (relation "measure (case_sum
        (case_sum (\<lambda>p. size (fst (snd p))) (\<lambda>p. size_list size (fst (snd (snd (snd (snd p)))))))
        (case_sum (\<lambda>p. size (fst (snd p))) (\<lambda>p. size_list size (fst (snd p)))))") auto

section \<open>File names\<close>

text \<open>\<^verbatim>\<open>s.endswith(suf)\<close>\<close>

definition endswith :: "string \<Rightarrow> string \<Rightarrow> bool" where
  "endswith s suf = (take (length suf) (rev s) = rev suf)"

text \<open>\<^verbatim>\<open>s.split(c)\<close> for a separator of one character: never the empty list.\<close>

fun split_on :: "char \<Rightarrow> string \<Rightarrow> string list" where
  "split_on c [] = [[]]"
| "split_on c (x # xs) =
     (if x = c then [] # split_on c xs
      else (case split_on c xs of
              [] \<Rightarrow> [[x]]
            | w # ws \<Rightarrow> (x # w) # ws))"

text \<open>
  \<^verbatim>\<open>int(s)\<close> on a string: surrounding white space is dropped, one sign is allowed, and at
  least one decimal digit must follow and nothing else; \<open>None\<close> stands for \<^verbatim>\<open>ValueError\<close>.
  Python's integers are unbounded. Strings of any other form (white space after the sign,
  digits outside ASCII) are taken to raise; the file names and identifiers of the two
  archives are plain decimal numbers.
\<close>

definition is_space :: "char \<Rightarrow> bool" where
  "is_space c = (c = CHR '' '' \<or> c = CHR 0x09 \<or> c = CHR 0x0A \<or> c = CHR 0x0B \<or> c = CHR 0x0C
                 \<or> c = CHR 0x0D)"

definition strip :: "string \<Rightarrow> string" where
  "strip s = rev (dropWhile is_space (rev (dropWhile is_space s)))"

definition digit_of :: "char \<Rightarrow> nat option" where
  "digit_of c = map_of (zip ''0123456789'' [0, 1, 2, 3, 4, 5, 6, 7, 8, 9]) c"

fun digits_value :: "string \<Rightarrow> nat \<Rightarrow> nat option" where
  "digits_value [] acc = Some acc"
| "digits_value (c # cs) acc =
     (case digit_of c of
        None \<Rightarrow> None
      | Some d \<Rightarrow> digits_value cs (10 * acc + d))"

definition unsigned_int :: "string \<Rightarrow> nat option" where
  "unsigned_int ds = (if ds = [] then None else digits_value ds 0)"

definition py_int :: "string \<Rightarrow> int option" where
  "py_int s =
     (case strip s of
        [] \<Rightarrow> None
      | c # r \<Rightarrow>
          if c = CHR ''-'' then map_option (\<lambda>n. - int n) (unsigned_int r)
          else if c = CHR ''+'' then map_option int (unsigned_int r)
          else map_option int (unsigned_int (c # r)))"

section \<open>The file-set matcher\<close>

text \<open>
  A directory is the list of its entries in the order of \<^verbatim>\<open>os.listdir\<close>, each with the
  dataset that \<^verbatim>\<open>dicom.read_file\<close> returns for it. What the matcher does is the list of
  its events: the files it reads and the entries it logs. \<open>Mismatch\<close> carries an entry
  logged by \<^verbatim>\<open>compare_dicoms\<close>, whose prefix holds the values of the template
  \<^verbatim>\<open>'{}: dicom mismatch in {}.{}.{}({}) -'\<close>; the other constructors are the messages of
  lines 164, 176 and 184. The message of line 200 is never logged: the index \<^verbatim>\<open>j\<close> is
  within the list and the handler of \<^verbatim>\<open>KeyError\<close> is not reached.
\<close>

type_synonym dcm_file = "string \<times> dataset"

type_synonym slot_prefix = "string \<times> string \<times> int \<times> int \<times> nat"

datatype event =
    ReadXnat string
  | ReadDaris string
  | Mismatch "slot_prefix log_entry"
  | NumberMismatch string string int nat nat
  | InconsistentEchos string string int
  | StrangeEchos string string int

type_synonym fname_map = "(int \<times> dcm_file list) list"

definition dcm_files :: "dcm_file list \<Rightarrow> dcm_file list" where
  "dcm_files dir = filter (\<lambda>f. endswith (fst f) ''.dcm'') dir"

text \<open>
  \<^verbatim>\<open>m[k].append(f)\<close> on a \<^verbatim>\<open>defaultdict(list)\<close>. The dictionary is an association list
  in the order in which its keys were first inserted.
\<close>

fun append_to :: "int \<Rightarrow> dcm_file \<Rightarrow> fname_map \<Rightarrow> fname_map" where
  "append_to k f [] = [(k, [f])]"
| "append_to k f ((k', fs) # m) =
     (if k = k' then (k', fs @ [f]) # m else (k', fs) # append_to k f m)"

text \<open>\<^verbatim>\<open>m[k]\<close> on a \<^verbatim>\<open>defaultdict(list)\<close>\<close>

definition files_of :: "fname_map \<Rightarrow> int \<Rightarrow> dcm_file list" where
  "files_of m k = (case map_of m k of None \<Rightarrow> [] | Some fs \<Rightarrow> fs)"

text \<open>\<^verbatim>\<open>int(fname.split('-')[-2])\<close>\<close>

definition xnat_dcm_num :: "string \<Rightarrow> error + int" where
  "xnat_dcm_num fname =
     (let ps = split_on (CHR ''-'') fname in
      if length ps < 2 then Inl IndexError
      else (case py_int (ps ! (length ps - 2)) of
              None \<Rightarrow> Inl ValueError
            | Some k \<Rightarrow> Inr k))"

text \<open>\<^verbatim>\<open>(int(fname.split('.')[0]) + 1) // max_mult\<close>, where \<open>max_mult\<close> is positive.\<close>

definition daris_dcm_num :: "nat \<Rightarrow> string \<Rightarrow> error + int" where
  "daris_dcm_num max_mult fname =
     (case split_on (CHR ''.'') fname of
        [] \<Rightarrow> Inl IndexError
      | p # ps \<Rightarrow>
          (case py_int p of
             None \<Rightarrow> Inl ValueError
           | Some n \<Rightarrow> Inr ((n + 1) div int max_mult)))"

fun xnat_group :: "dcm_file list \<Rightarrow> fname_map \<Rightarrow> error + fname_map" where
  "xnat_group [] m = Inr m"
| "xnat_group (f # fs) m =
     (case xnat_dcm_num (fst f) of
        Inl e \<Rightarrow> Inl e
      | Inr k \<Rightarrow> xnat_group fs (append_to k f m))"

fun daris_group :: "nat \<Rightarrow> dcm_file list \<Rightarrow> fname_map \<Rightarrow> error + fname_map" where
  "daris_group max_mult [] m = Inr m"
| "daris_group max_mult (f # fs) m =
     (case daris_dcm_num max_mult (fst f) of
        Inl e \<Rightarrow> Inl e
      | Inr k \<Rightarrow> daris_group max_mult fs (append_to k f m))"

text \<open>\<^verbatim>\<open>max\<close> of a sequence: \<^verbatim>\<open>ValueError\<close> when it is empty.\<close>

fun py_max :: "nat list \<Rightarrow> error + nat" where
  "py_max [] = Inl ValueError"
| "py_max (n # ns) = Inr (fold max ns n)"

text \<open>
  Lines 159 to 186: the checks before any file is read. The result is either the outcome
  of the whole call (an early \<^verbatim>\<open>return False\<close> with its log entry, or an exception) or
  the two dictionaries from slot numbers to files. Lines 173 and 174 both take the maximum.
\<close>

definition group_files ::
  "dcm_file list \<Rightarrow> dcm_file list \<Rightarrow> string \<Rightarrow> string \<Rightarrow> int
     \<Rightarrow> ((error + bool) \<times> event list) + (fname_map \<times> fname_map)" where
  "group_files xnat_dir daris_dir cid xnat_session dataset_id =
     (let daris_files = dcm_files daris_dir;
          xnat_files = dcm_files xnat_dir in
      if length daris_files \<noteq> length xnat_files then
        Inl (Inr False,
             [NumberMismatch cid xnat_session dataset_id (length xnat_files) (length daris_files)])
      else
        (case xnat_group xnat_files [] of
           Inl e \<Rightarrow> Inl (Inl e, [])
         | Inr xnat_fname_map \<Rightarrow>
             (case py_max (map (\<lambda>kv. length (snd kv)) xnat_fname_map) of
                Inl e \<Rightarrow> Inl (Inl e, [])
              | Inr max_mult \<Rightarrow>
                  (case py_max (map (\<lambda>kv. length (snd kv)) xnat_fname_map) of
                     Inl e \<Rightarrow> Inl (Inl e, [])
                   | Inr min_mult \<Rightarrow>
                       if max_mult \<noteq> min_mult then
                         Inl (Inr False, [InconsistentEchos cid xnat_session dataset_id])
                       else
                         (case daris_group max_mult daris_files [] of
                            Inl e \<Rightarrow> Inl (Inl e, [])
                          | Inr daris_fname_map \<Rightarrow>
                              if sort (map fst xnat_fname_map) \<noteq> sort (map fst daris_fname_map)
                              then Inl (Inr False, [StrangeEchos cid xnat_session dataset_id])
                              else Inr (xnat_fname_map, daris_fname_map))))))"

text \<open>
  Lines 191 to 212 for one slot. The candidate pairs are \<open>(daris file i, xnat file j)\<close>
  for \<open>i\<close> in the outer and \<open>j\<close> in the inner loop. For each pair the xnat file is read,
  then the daris file, and the two datasets are compared with \<open>ns = []\<close>.
  \<^verbatim>\<open>WrongEchoTimeException\<close> is caught and the loop goes on; a false comparison is
  \<^verbatim>\<open>return False\<close>; any other exception leaves the function. \<open>Inr True\<close> says that the
  loop ran to its end.
\<close>

fun compare_pairs :: "(dcm_file \<times> dcm_file) list \<Rightarrow> slot_prefix \<Rightarrow> (error + bool) \<times> event list" where
  "compare_pairs [] prefix = (Inr True, [])"
| "compare_pairs ((d, x) # ps) prefix =
     (case compare_dicoms (IDataset (snd x)) (snd d) prefix [] of
        (Inl e, lg) \<Rightarrow>
          if e = WrongEchoTimeException then
            (case compare_pairs ps prefix of
               (r, ev) \<Rightarrow> (r, [ReadXnat (fst x), ReadDaris (fst d)] @ map Mismatch lg @ ev))
          else (Inl e, [ReadXnat (fst x), ReadDaris (fst d)] @ map Mismatch lg)
      | (Inr r, lg) \<Rightarrow>
          if r then
            (case compare_pairs ps prefix of
               (r', ev) \<Rightarrow> (r', [ReadXnat (fst x), ReadDaris (fst d)] @ map Mismatch lg @ ev))
          else (Inr False, [ReadXnat (fst x), ReadDaris (fst d)] @ map Mismatch lg))"

text \<open>
  Lines 187 to 213: the loop over the slots of the daris dictionary, here in the order of
  the association list (Python 2 iterates a dictionary in the order of its hash table).
  The assertion of line 189 makes both lists of a slot equally long, so the index pairs of
  \<^verbatim>\<open>itertools.product(range(num_echoes), range(num_echoes))\<close> are the pairs of the two lists.
\<close>

fun compare_slots ::
  "fname_map \<Rightarrow> fname_map \<Rightarrow> string \<Rightarrow> string \<Rightarrow> int \<Rightarrow> (error + bool) \<times> event list" where
  "compare_slots xnat_fname_map [] cid xnat_session dataset_id = (Inr True, [])"
| "compare_slots xnat_fname_map ((dcm_num, dfs) # rest) cid xnat_session dataset_id =
     (if length (files_of xnat_fname_map dcm_num) \<noteq> length dfs then (Inl AssertionError, [])
      else
        (case compare_pairs (List.product dfs (files_of xnat_fname_map dcm_num))
                (cid, xnat_session, dataset_id, dcm_num, 0) of
           (Inl e, ev) \<Rightarrow> (Inl e, ev)
         | (Inr r, ev) \<Rightarrow>
             if r then
               (case compare_slots xnat_fname_map rest cid xnat_session dataset_id of
                  (r', ev') \<Rightarrow> (r', ev @ ev'))
             else (Inr False, ev)))"

text \<open>\<^verbatim>\<open>compare_all_dicoms\<close>, lines 158 to 213.\<close>

definition compare_all_dicoms ::
  "dcm_file list \<Rightarrow> dcm_file list \<Rightarrow> string \<Rightarrow> string \<Rightarrow> int \<Rightarrow> (error + bool) \<times> event list" where
  "compare_all_dicoms xnat_dir daris_dir cid xnat_session dataset_id =
     (case group_files xnat_dir daris_dir cid xnat_session dataset_id of
        Inl out \<Rightarrow> out
      | Inr (xnat_fname_map, daris_fname_map) \<Rightarrow>
          compare_slots xnat_fname_map daris_fname_map cid xnat_session dataset_id)"

section \<open>The project walker: the order of the catalog identifiers\<close>



section \<open>Notions used by the statements\<close>

text \<open>
  A metadata record is well formed when no dataset in it, at any depth, holds two elements
  with the same tag. The library keeps the elements of a dataset in a dictionary keyed by
  tag, so every dataset it reads is well formed.
\<close>

fun wf_element :: "element \<Rightarrow> bool"
  and wf_val :: "val \<Rightarrow> bool"
  and wf_dataset :: "dataset \<Rightarrow> bool" where
  "wf_element (DataElement t n v) = wf_val v"
| "wf_val (Single a) = True"
| "wf_val (MultiValue as) = True"
| "wf_val (Sequence dss) = (\<forall>d \<in> set dss. wf_dataset d)"
| "wf_dataset (Dataset nm es) = (distinct (map el_tag es) \<and> (\<forall>e \<in> set es. wf_element e))"


section \<open>Evaluation\<close>

lemmas parse_defs = dcm_files_def endswith_def xnat_dcm_num_def daris_dcm_num_def py_int_def
  strip_def is_space_def unsigned_int_def digit_of_def files_of_def Let_def

lemmas cmp_defs = echo_check_def bind_x_def getitem_def compare_scalar_def include_diff_def
  echo_tag_def py_eq_def

section \<open>The file-set matcher: file counts\<close>

text \<open>
  Claim C8. When the two directories hold different numbers of \<^verbatim>\<open>.dcm\<close> files,
  \<^verbatim>\<open>compare_all_dicoms\<close> returns false at once: its only event is the log entry of line
  164, so no file is read and no metadata is compared.
\<close>

theorem count_mismatch_returns_False:
  assumes "length (dcm_files daris_dir) \<noteq> length (dcm_files xnat_dir)"
  shows "compare_all_dicoms xnat_dir daris_dir cid xnat_session dataset_id =
     (Inr False, [NumberMismatch cid xnat_session dataset_id
                    (length (dcm_files xnat_dir)) (length (dcm_files daris_dir))])"
  using assms by (simp add: compare_all_dicoms_def group_files_def Let_def)

text \<open>Claim C8 at two destination files against one source file and a text file.\<close>

theorem count_mismatch_returns_False_witness:
  "length (dcm_files [(''1.dcm'', Dataset None []), (''notes.txt'', Dataset None [])])
     \<noteq> length (dcm_files [(''a-1-1.dcm'', Dataset None []), (''a-1-2.dcm'', Dataset None [])])
   \<and> compare_all_dicoms [(''a-1-1.dcm'', Dataset None []), (''a-1-2.dcm'', Dataset None [])]
        [(''1.dcm'', Dataset None []), (''notes.txt'', Dataset None [])]
        ''1008.2.1.1.1.1.9'' ''MRH001_001_MR01'' 9
     = (Inr False, [NumberMismatch ''1008.2.1.1.1.1.9'' ''MRH001_001_MR01'' 9 2 1])"
proof -
  have h: "length (dcm_files [(''1.dcm'', Dataset None []), (''notes.txt'', Dataset None [])])
     \<noteq> length (dcm_files [(''a-1-1.dcm'', Dataset None []), (''a-1-2.dcm'', Dataset None [])])"
    by (simp add: dcm_files_def endswith_def)
  show ?thesis
    using h count_mismatch_returns_False [OF h, of "''1008.2.1.1.1.1.9''" "''MRH001_001_MR01''" 9]
    by (simp add: dcm_files_def endswith_def)
qed

section \<open>The file-set matcher: echo counts\<close>

text \<open>
  Claim C1. The destination files \<^verbatim>\<open>a-1-1.dcm\<close>, \<^verbatim>\<open>a-1-2.dcm\<close> and \<^verbatim>\<open>a-2-1.dcm\<close> fall
  into slot 1 with two files and slot 2 with one file. Lines 173 and 174 compute the same
  maximum, so the test of line 175 does not fire; with the source files \<^verbatim>\<open>1.dcm\<close>,
  \<^verbatim>\<open>2.dcm\<close> and \<^verbatim>\<open>3.dcm\<close> and equal metadata the matcher reads every candidate pair and
  returns true.
\<close>

theorem inconsistent_echo_counts_return_True:
  "xnat_group (dcm_files [(''a-1-1.dcm'', Dataset None []), (''a-1-2.dcm'', Dataset None []),
                          (''a-2-1.dcm'', Dataset None [])]) [] =
     Inr [(1, [(''a-1-1.dcm'', Dataset None []), (''a-1-2.dcm'', Dataset None [])]),
          (2, [(''a-2-1.dcm'', Dataset None [])])]
   \<and> compare_all_dicoms
        [(''a-1-1.dcm'', Dataset None []), (''a-1-2.dcm'', Dataset None []),
         (''a-2-1.dcm'', Dataset None [])]
        [(''1.dcm'', Dataset None []), (''2.dcm'', Dataset None []), (''3.dcm'', Dataset None [])]
        cid xnat_session dataset_id
     = (Inr True,
        [ReadXnat ''a-1-1.dcm'', ReadDaris ''1.dcm'', ReadXnat ''a-1-2.dcm'', ReadDaris ''1.dcm'',
         ReadXnat ''a-1-1.dcm'', ReadDaris ''2.dcm'', ReadXnat ''a-1-2.dcm'', ReadDaris ''2.dcm'',
         ReadXnat ''a-2-1.dcm'', ReadDaris ''3.dcm''])"
  by (simp add: compare_all_dicoms_def group_files_def parse_defs cmp_defs)

section \<open>The record comparator: sequences\<close>

text \<open>
  Claim C2. A left sequence of two items against a right sequence of one item: line 132
  logs the two lengths, \<^verbatim>\<open>match\<close> stays true, the first items are compared, and the
  comparison returns true.
\<close>

theorem sequence_length_mismatch_returns_True:
  "compare_element
     (DataElement (0x0008, 0x1140) ''Referenced Image Sequence''
        (Sequence [Dataset None [], Dataset None []]))
     (DataElement (0x0008, 0x1140) ''Referenced Image Sequence'' (Sequence [Dataset None []]))
     prefix ns
   = (Inr True, [SeqLength prefix (join_dot ns) 2 1])"
  by (simp add: cmp_defs)

section \<open>The record comparator: fields of one side only\<close>

text \<open>
  Claim C5. A right dataset with one field against an empty left dataset: the handler of
  line 124 is entered, and the call ends in an exception, not in false. Where the right
  dataset object has no attribute \<^verbatim>\<open>name\<close>, formatting the message raises
  \<^verbatim>\<open>AttributeError\<close>; where it has one, the message is logged and line 128 reads the
  unbound variable \<^verbatim>\<open>x\<close>.
\<close>

theorem right_only_field_raises:
  "compare_dicoms (IDataset (Dataset xnm []))
     (Dataset None [DataElement (0x0008, 0x0008) ''Image Type'' (Single (Str ''A''))]) prefix ns
     = (Inl AttributeError, [])
   \<and> compare_dicoms (IDataset (Dataset xnm []))
       (Dataset (Some n) [DataElement (0x0008, 0x0008) ''Image Type'' (Single (Str ''A''))])
       prefix ns
     = (Inl UnboundLocalError, [Missing prefix n])"
  by (simp add: cmp_defs)

text \<open>
  The other half of the asymmetry holds: the comparator reads the left dataset only at the
  tags of the right dataset, so a field that only the left dataset has changes neither the
  result nor the log.
\<close>

lemma getitem_Some_mem: "getitem ds t = Some d \<Longrightarrow> d \<in> set ds \<and> el_tag d = t"
  by (induction ds) (auto simp: getitem_def split: if_splits)

lemma compare_fields_left_cong:
  "(\<And>d. d \<in> set ds \<Longrightarrow> getitem xs' (el_tag d) = getitem xs (el_tag d))
   \<Longrightarrow> compare_fields (IDataset (Dataset xnm' xs')) nm x match ds prefix ns
     = compare_fields (IDataset (Dataset xnm xs)) nm x match ds prefix ns"
proof (induction ds arbitrary: x match)
  case Nil
  then show ?case by simp
next
  case (Cons d ds)
  have b: "bind_x (IDataset (Dataset xnm' xs')) nm x match d prefix
         = bind_x (IDataset (Dataset xnm xs)) nm x match d prefix"
    using Cons.prems [of d] by (simp add: bind_x_def)
  have r: "\<And>x match. compare_fields (IDataset (Dataset xnm' xs')) nm x match ds prefix ns
     = compare_fields (IDataset (Dataset xnm xs)) nm x match ds prefix ns"
    using Cons.IH Cons.prems by simp
  show ?case by (simp add: b r split: sum.splits prod.splits)
qed

lemma left_dataset_read_at_right_tags:
  assumes "\<And>d. d \<in> set ds \<Longrightarrow> getitem xs' (el_tag d) = getitem xs (el_tag d)"
  shows "compare_dicoms (IDataset (Dataset xnm' xs')) (Dataset nm ds) prefix ns
       = compare_dicoms (IDataset (Dataset xnm xs)) (Dataset nm ds) prefix ns"
proof -
  have e: "(echo_check (IDataset (Dataset xnm' xs')) ds :: error + (bool \<times> 'a log_entry list))
         = echo_check (IDataset (Dataset xnm xs)) ds"
  proof (cases "getitem ds echo_tag")
    case None
    then show ?thesis by (simp add: echo_check_def)
  next
    case (Some d)
    then have "getitem xs' echo_tag = getitem xs echo_tag"
      using assms [of d] getitem_Some_mem [OF Some] by simp
    then show ?thesis by (simp add: echo_check_def Some)
  qed
  have f: "\<And>x match. compare_fields (IDataset (Dataset xnm' xs')) nm x match ds prefix ns
     = compare_fields (IDataset (Dataset xnm xs)) nm x match ds prefix ns"
    using assms by (rule compare_fields_left_cong)
  show ?thesis
    by (simp add: e f split: sum.splits prod.splits)
qed

lemma left_only_field_not_inspected:
  assumes "el_tag e \<notin> el_tag ` set ds"
  shows "compare_dicoms (IDataset (Dataset xnm (ys @ e # zs))) (Dataset nm ds) prefix ns
       = compare_dicoms (IDataset (Dataset xnm (ys @ zs))) (Dataset nm ds) prefix ns"
proof (rule left_dataset_read_at_right_tags)
  fix d assume "d \<in> set ds"
  then have "el_tag e \<noteq> el_tag d" using assms by auto
  then show "getitem (ys @ e # zs) (el_tag d) = getitem (ys @ zs) (el_tag d)"
    by (induction ys) (auto simp: getitem_def)
qed

section \<open>The record comparator: a first field that the left record lacks\<close>

text \<open>
  Counterexample to claim C10 as stated. The first right field, Image Type, is absent from
  the left dataset, and both datasets hold the echo time with different values: the check
  of lines 112 to 116 runs before the loop and raises \<^verbatim>\<open>WrongEchoTimeException\<close>, which
  is no name error.
\<close>

theorem first_field_missing_echo_signal:
  "getitem [DataElement (0x0018, 0x0081) ''Echo Time'' (Single (Num 20))]
     (el_tag (DataElement (0x0008, 0x0008) ''Image Type'' (Single (Str ''A'')))) = None
   \<and> compare_dicoms
     (IDataset (Dataset None [DataElement (0x0018, 0x0081) ''Echo Time'' (Single (Num 20))]))
     (Dataset None [DataElement (0x0008, 0x0008) ''Image Type'' (Single (Str ''A'')),
                    DataElement (0x0018, 0x0081) ''Echo Time'' (Single (Num 10))])
     ''p'' []
   = (Inl WrongEchoTimeException, [])"
  by (simp add: cmp_defs)

text \<open>
  Claim C10, amended. When the first field iterated from the right dataset is absent from
  the left dataset, the comparison never returns a boolean. It raises
  \<^verbatim>\<open>WrongEchoTimeException\<close> when both datasets hold the echo time with different values;
  otherwise the handler of the missing field raises \<^verbatim>\<open>AttributeError\<close> when the right
  dataset object has no attribute \<^verbatim>\<open>name\<close> for the message, and else line 128 raises the
  name error for the unbound variable \<^verbatim>\<open>x\<close>.
\<close>

theorem first_field_missing_raises:
  assumes "getitem xs (el_tag d) = None"
  shows "fst (compare_dicoms (IDataset (Dataset xnm xs)) (Dataset nm (d # ds)) prefix ns) =
    Inl (if (\<exists>de xe. getitem (d # ds) echo_tag = Some de \<and> getitem xs echo_tag = Some xe
                   \<and> \<not> py_eq (el_value de) (el_value xe))
         then WrongEchoTimeException
         else if nm = None then AttributeError else UnboundLocalError)"
  using assms by (auto simp: echo_check_def bind_x_def split: option.splits)

text \<open>
  Claim C10, amended, at an empty left dataset and a right dataset with one field and an
  attribute \<^verbatim>\<open>name\<close>: the name error.
\<close>

theorem first_field_missing_raises_witness:
  "getitem [] (el_tag (DataElement (0x0008, 0x0008) ''Image Type'' (Single (Str ''A'')))) = None
   \<and> fst (compare_dicoms (IDataset (Dataset None []))
       (Dataset (Some ''n'') [DataElement (0x0008, 0x0008) ''Image Type'' (Single (Str ''A''))])
       ''p'' []) = Inl UnboundLocalError"
proof -
  have h: "getitem [] (el_tag (DataElement (0x0008, 0x0008) ''Image Type'' (Single (Str ''A''))))
             = None"
    by (simp add: getitem_def)
  show ?thesis
    using h first_field_missing_raises [OF h, of None "Some ''n''" "[]" "''p''" "[]"]
    by (simp add: getitem_def echo_tag_def)
qed

section \<open>The record comparator: the echo time\<close>

text \<open>
  Counterexample to claim C4 as stated. The right dataset holds the echo time and the left
  one does not: line 118 logs an ordinary entry and sets \<^verbatim>\<open>match\<close> to false, and
  \<^verbatim>\<open>WrongEchoTimeException\<close> is not raised. The loop then meets the echo time field
  itself: without an attribute \<^verbatim>\<open>name\<close> on the right dataset object the call ends in
  \<^verbatim>\<open>AttributeError\<close>, with one it returns false after three log entries.
\<close>

theorem echo_time_absent_left_no_signal:
  "compare_dicoms
     (IDataset (Dataset None [DataElement (0x0008, 0x0008) ''Image Type'' (Single (Str ''A''))]))
     (Dataset None [DataElement (0x0008, 0x0008) ''Image Type'' (Single (Str ''A'')),
                    DataElement (0x0018, 0x0081) ''Echo Time'' (Single (Num 10))])
     ''p'' []
   = (Inl AttributeError, [NoEchoTime])
   \<and> compare_dicoms
     (IDataset (Dataset None [DataElement (0x0008, 0x0008) ''Image Type'' (Single (Str ''A''))]))
     (Dataset (Some ''n'') [DataElement (0x0008, 0x0008) ''Image Type'' (Single (Str ''A'')),
                    DataElement (0x0018, 0x0081) ''Echo Time'' (Single (Num 10))])
     ''p'' []
   = (Inr False, [NoEchoTime, Missing ''p'' ''n'',
        ValueMismatch ''p'' ''Echo Time'' (Some (Single (Str ''A''), Single (Num 10)))])"
  by (simp add: cmp_defs)

lemma compare_fields_False:
  "compare_fields xnat_elem nm x False ds prefix ns = (r, lg) \<Longrightarrow> r \<noteq> Inr True"
proof (induction ds arbitrary: x r lg)
  case Nil
  then show ?case by auto
next
  case (Cons d ds)
  have m: "\<And>xe m lg. bind_x xnat_elem nm x False d prefix = Inr (xe, m, lg) \<Longrightarrow> m = False"
    by (auto simp: bind_x_def split: item.splits option.splits)
  show ?case
    using Cons.prems Cons.IH m
    by (auto split: sum.splits prod.splits)
qed

text \<open>
  Claim C4, amended. For a right dataset that holds the echo time: when the left dataset
  holds it with a different value, the comparison raises \<^verbatim>\<open>WrongEchoTimeException\<close> and
  logs nothing; when the left dataset lacks it, the first log entry is the ordinary entry
  of line 118 and the comparison does not return true.
\<close>

theorem echo_time_check:
  assumes "getitem ds echo_tag = Some d"
  shows "(\<forall>x. getitem xs echo_tag = Some x \<and> \<not> py_eq (el_value d) (el_value x) \<longrightarrow>
            compare_dicoms (IDataset (Dataset xnm xs)) (Dataset nm ds) prefix ns
              = (Inl WrongEchoTimeException, []))
       \<and> (getitem xs echo_tag = None \<longrightarrow>
            (\<exists>r lg. compare_dicoms (IDataset (Dataset xnm xs)) (Dataset nm ds) prefix ns
                       = (r, NoEchoTime # lg) \<and> r \<noteq> Inr True))"
proof (intro conjI allI impI)
  fix x assume "getitem xs echo_tag = Some x \<and> \<not> py_eq (el_value d) (el_value x)"
  then show "compare_dicoms (IDataset (Dataset xnm xs)) (Dataset nm ds) prefix ns
               = (Inl WrongEchoTimeException, [])"
    using assms by (simp add: echo_check_def)
next
  assume n: "getitem xs echo_tag = None"
  obtain r lg where
    f: "compare_fields (IDataset (Dataset xnm xs)) nm None False ds prefix ns = (r, lg)"
    by (cases "compare_fields (IDataset (Dataset xnm xs)) nm None False ds prefix ns")
  have "r \<noteq> Inr True"
    using f by (rule compare_fields_False)
  moreover have "compare_dicoms (IDataset (Dataset xnm xs)) (Dataset nm ds) prefix ns
                   = (r, NoEchoTime # lg)"
    using assms n f by (simp add: echo_check_def)
  ultimately show "\<exists>r lg. compare_dicoms (IDataset (Dataset xnm xs)) (Dataset nm ds) prefix ns
                     = (r, NoEchoTime # lg) \<and> r \<noteq> Inr True"
    by blast
qed

text \<open>
  Claim C4, amended, at a right dataset with echo time 10, against a left dataset with
  echo time 20 and against an empty left dataset.
\<close>

theorem echo_time_check_witness:
  "getitem [DataElement (0x0018, 0x0081) ''Echo Time'' (Single (Num 10))] echo_tag
     = Some (DataElement (0x0018, 0x0081) ''Echo Time'' (Single (Num 10)))
   \<and> compare_dicoms
        (IDataset (Dataset None [DataElement (0x0018, 0x0081) ''Echo Time'' (Single (Num 20))]))
        (Dataset None [DataElement (0x0018, 0x0081) ''Echo Time'' (Single (Num 10))]) ''p'' []
       = (Inl WrongEchoTimeException, [])
   \<and> (\<exists>r lg. compare_dicoms (IDataset (Dataset None []))
        (Dataset None [DataElement (0x0018, 0x0081) ''Echo Time'' (Single (Num 10))]) ''p'' []
       = (r, NoEchoTime # lg) \<and> r \<noteq> Inr True)"
proof -
  have h: "getitem [DataElement (0x0018, 0x0081) ''Echo Time'' (Single (Num 10))] echo_tag
     = Some (DataElement (0x0018, 0x0081) ''Echo Time'' (Single (Num 10)))"
    by (simp add: getitem_def echo_tag_def)
  have a: "getitem [DataElement (0x0018, 0x0081) ''Echo Time'' (Single (Num 20))] echo_tag
     = Some (DataElement (0x0018, 0x0081) ''Echo Time'' (Single (Num 20)))
     \<and> \<not> py_eq (el_value (DataElement (0x0018, 0x0081) ''Echo Time'' (Single (Num 10))))
              (el_value (DataElement (0x0018, 0x0081) ''Echo Time'' (Single (Num 20))))"
    by (simp add: getitem_def echo_tag_def py_eq_def)
  have b: "getitem [] echo_tag = None"
    by (simp add: getitem_def)
  show ?thesis
    using h a b
      echo_time_check [OF h,
        of "[DataElement (0x0018, 0x0081) ''Echo Time'' (Single (Num 20))]" None None "''p''" "[]"]
      echo_time_check [OF h, of "[]" None None "''p''" "[]"]
    by blast
qed

section \<open>The record comparator: reflexivity\<close>

text \<open>
  Counterexample to claim C6 as stated. A well-formed record whose echo time is a NaN,
  compared with itself, raises \<^verbatim>\<open>WrongEchoTimeException\<close> at line 116, since the NaN
  differs from itself; a well-formed record with a NaN in another field logs a value
  mismatch and returns false.
\<close>

theorem nan_record_not_reflexive:
  "wf_dataset (Dataset None [DataElement (0x0018, 0x0081) ''Echo Time'' (Single NaN)])
   \<and> compare_dicoms
       (IDataset (Dataset None [DataElement (0x0018, 0x0081) ''Echo Time'' (Single NaN)]))
       (Dataset None [DataElement (0x0018, 0x0081) ''Echo Time'' (Single NaN)]) ''p'' []
     = (Inl WrongEchoTimeException, [])
   \<and> wf_dataset (Dataset None [DataElement (0x0018, 0x0050) ''Slice Thickness'' (Single NaN)])
   \<and> compare_dicoms
       (IDataset (Dataset None [DataElement (0x0018, 0x0050) ''Slice Thickness'' (Single NaN)]))
       (Dataset None [DataElement (0x0018, 0x0050) ''Slice Thickness'' (Single NaN)]) ''p'' []
     = (Inr False,
        [ValueMismatch ''p'' ''Slice Thickness'' (Some (Single NaN, Single NaN))])"
  by (simp add: cmp_defs)

lemma getitem_distinct:
  "distinct (map el_tag es) \<Longrightarrow> d \<in> set es \<Longrightarrow> getitem es (el_tag d) = Some d"
  by (induction es) (auto simp: getitem_def)

lemma nan_free_element_value: "nan_free_element e = nan_free_val (el_value e)"
  by (cases e) simp

lemma echo_check_same:
  assumes "\<And>e. e \<in> set es \<Longrightarrow> nan_free_element e"
  shows "echo_check (IDataset (Dataset nm es)) es = Inr (True, [])"
proof (cases "getitem es echo_tag")
  case None
  then show ?thesis by (simp add: echo_check_def)
next
  case (Some d)
  then have "d \<in> set es" by (simp add: getitem_Some_mem)
  then have "py_eq (el_value d) (el_value d)"
    using assms by (simp add: py_eq_def nan_free_element_value)
  then show ?thesis by (simp add: echo_check_def Some)
qed

lemma compare_items_same:
  "(\<And>d. d \<in> set dss \<Longrightarrow> compare_dicoms (IDataset d) d prefix ns = (Inr True, []))
   \<Longrightarrow> compare_items (map IDataset dss) dss True prefix ns = (Inr True, [])"
  by (induction dss) simp_all

lemma compare_fields_same:
  "(\<And>d. d \<in> set ds \<Longrightarrow> getitem es (el_tag d) = Some d)
   \<Longrightarrow> (\<And>d. d \<in> set ds \<Longrightarrow> compare_element d d prefix (ns @ [el_name d]) = (Inr True, []))
   \<Longrightarrow> compare_fields (IDataset (Dataset xnm es)) nm x True ds prefix ns = (Inr True, [])"
  by (induction ds arbitrary: x) (simp_all add: bind_x_def)

lemma compare_same_all:
  fixes e :: element and v :: val and X :: dataset
  shows "wf_element e \<Longrightarrow> nan_free_element e
           \<Longrightarrow> compare_element e e (prefix::'p) ns = (Inr True, [])"
    and "wf_val v \<Longrightarrow> nan_free_val v
           \<Longrightarrow> compare_element (DataElement t n v) (DataElement t n v) (prefix::'p) ns
                 = (Inr True, [])"
    and "wf_dataset X \<Longrightarrow> nan_free_dataset X
           \<Longrightarrow> compare_dicoms (IDataset X) X (prefix::'p) ns = (Inr True, [])"
proof (induction e and v and X arbitrary: prefix ns and t n prefix ns and prefix ns)
  case (DataElement t n v)
  then show ?case by simp
next
  case (Single a)
  then show ?case by (simp add: compare_scalar_def py_eq_def)
next
  case (MultiValue as)
  then show ?case by (simp add: compare_scalar_def py_eq_def)
next
  case (Sequence dss)
  then show ?case by (simp add: compare_items_same)
next
  case (Dataset nm es)
  have look: "\<And>d. d \<in> set es \<Longrightarrow> getitem es (el_tag d) = Some d"
    using Dataset.prems by (simp add: getitem_distinct)
  have el: "\<And>d. d \<in> set es \<Longrightarrow> compare_element d d prefix (ns @ [el_name d]) = (Inr True, [])"
    using Dataset.prems Dataset.IH by simp
  have nf: "\<And>e. e \<in> set es \<Longrightarrow> nan_free_element e"
    using Dataset.prems by simp
  have "compare_fields (IDataset (Dataset nm es)) nm None True es prefix ns = (Inr True, [])"
    using look el by (rule compare_fields_same)
  then show ?case
    by (simp add: echo_check_same [OF nf])
qed

text \<open>
  Claim C6, amended. Comparing a well-formed metadata record in which no value is a NaN
  with itself returns true; it raises nothing, \<^verbatim>\<open>WrongEchoTimeException\<close> included, and
  logs nothing.
\<close>

theorem compare_dicoms_reflexive:
  "wf_dataset X \<Longrightarrow> nan_free_dataset X
     \<Longrightarrow> compare_dicoms (IDataset X) X prefix ns = (Inr True, [])"
  by (rule compare_same_all(3))

text \<open>
  Claim C6, amended, at a record with a multi-valued field, a sequence of one nested
  record and an echo time of 2.5.
\<close>

theorem compare_dicoms_reflexive_witness:
  "wf_dataset (Dataset None
       [DataElement (0x0008, 0x0008) ''Image Type'' (MultiValue [Str ''ORIGINAL'', Str ''PRIMARY'']),
        DataElement (0x0008, 0x1140) ''Referenced Image Sequence''
          (Sequence [Dataset None
             [DataElement (0x0008, 0x1150) ''Referenced SOP Class UID'' (Single (Str ''1.2.840''))]]),
        DataElement (0x0018, 0x0081) ''Echo Time'' (Single (Num (5 / 2)))])
   \<and> nan_free_dataset (Dataset None
       [DataElement (0x0008, 0x0008) ''Image Type'' (MultiValue [Str ''ORIGINAL'', Str ''PRIMARY'']),
        DataElement (0x0008, 0x1140) ''Referenced Image Sequence''
          (Sequence [Dataset None
             [DataElement (0x0008, 0x1150) ''Referenced SOP Class UID'' (Single (Str ''1.2.840''))]]),
        DataElement (0x0018, 0x0081) ''Echo Time'' (Single (Num (5 / 2)))])
   \<and> compare_dicoms (IDataset (Dataset None
       [DataElement (0x0008, 0x0008) ''Image Type'' (MultiValue [Str ''ORIGINAL'', Str ''PRIMARY'']),
        DataElement (0x0008, 0x1140) ''Referenced Image Sequence''
          (Sequence [Dataset None
             [DataElement (0x0008, 0x1150) ''Referenced SOP Class UID'' (Single (Str ''1.2.840''))]]),
        DataElement (0x0018, 0x0081) ''Echo Time'' (Single (Num (5 / 2)))]))
      (Dataset None
       [DataElement (0x0008, 0x0008) ''Image Type'' (MultiValue [Str ''ORIGINAL'', Str ''PRIMARY'']),
        DataElement (0x0008, 0x1140) ''Referenced Image Sequence''
          (Sequence [Dataset None
             [DataElement (0x0008, 0x1150) ''Referenced SOP Class UID'' (Single (Str ''1.2.840''))]]),
        DataElement (0x0018, 0x0081) ''Echo Time'' (Single (Num (5 / 2)))]) ''p'' []
     = (Inr True, [])"
proof -
  have h: "wf_dataset (Dataset None
       [DataElement (0x0008, 0x0008) ''Image Type'' (MultiValue [Str ''ORIGINAL'', Str ''PRIMARY'']),
        DataElement (0x0008, 0x1140) ''Referenced Image Sequence''
          (Sequence [Dataset None
             [DataElement (0x0008, 0x1150) ''Referenced SOP Class UID'' (Single (Str ''1.2.840''))]]),
        DataElement (0x0018, 0x0081) ''Echo Time'' (Single (Num (5 / 2)))])"
    by simp
  have f: "nan_free_dataset (Dataset None
       [DataElement (0x0008, 0x0008) ''Image Type'' (MultiValue [Str ''ORIGINAL'', Str ''PRIMARY'']),
        DataElement (0x0008, 0x1140) ''Referenced Image Sequence''
          (Sequence [Dataset None
             [DataElement (0x0008, 0x1150) ''Referenced SOP Class UID'' (Single (Str ''1.2.840''))]]),
        DataElement (0x0018, 0x0081) ''Echo Time'' (Single (Num (5 / 2)))])"
    by simp
  show ?thesis using h f compare_dicoms_reflexive [OF h f, of "''p''" "[]"] by simp
qed

section \<open>The record comparator: the log entry of a value mismatch\<close>

text \<open>
  Counterexample to claim C7 as stated. The left value is a string of 101 characters and
  the right value the number 5. \<^verbatim>\<open>len\<close> of the number raises \<^verbatim>\<open>TypeError\<close>, line 145
  catches it, and the entry holds both values although one of them is longer than 100.
\<close>

theorem long_value_against_number_logged:
  "compare_element
     (DataElement (0x0008, 0x0008) ''Image Type'' (Single (Str (replicate 101 (CHR ''a'')))))
     (DataElement (0x0008, 0x0008) ''Image Type'' (Single (Num 5))) ''p'' [''Image Type'']
   = (Inr False,
      [ValueMismatch ''p'' ''Image Type''
         (Some (Single (Str (replicate 101 (CHR ''a''))), Single (Num 5)))])"
  by (simp add: cmp_defs)

text \<open>
  Claim C7, amended. For unequal values, the right one no sequence, the comparison returns
  false and logs one entry; the entry omits the two values exactly when both values have a
  length and the larger length exceeds 100. When either value has no length (a number) the
  values are included.
\<close>

theorem value_mismatch_entry:
  assumes "\<not> py_eq (el_value x) (el_value d)" and "\<forall>dss. el_value d \<noteq> Sequence dss"
  shows "compare_element x d prefix ns =
     (Inr False,
      [ValueMismatch prefix (join_dot ns)
         (if (\<exists>lx ld. py_len (el_value x) = Some lx \<and> py_len (el_value d) = Some ld
                      \<and> max lx ld > 100)
          then None else Some (el_value x, el_value d))])"
proof (cases d)
  case (DataElement t n v)
  then show ?thesis using assms
    by (cases v) (auto simp: compare_scalar_def include_diff_def split: option.splits)
qed

text \<open>
  Claim C7, amended, at the two boundary sizes: a left string of 100 characters is logged
  with the values, a left string of 101 characters without them.
\<close>

theorem value_mismatch_entry_witness:
  "compare_element
     (DataElement (0x0008, 0x0008) ''Image Type'' (Single (Str (replicate 100 (CHR ''a'')))))
     (DataElement (0x0008, 0x0008) ''Image Type'' (Single (Str ''b''))) ''p'' [''Image Type'']
   = (Inr False,
      [ValueMismatch ''p'' ''Image Type''
         (Some (Single (Str (replicate 100 (CHR ''a''))), Single (Str ''b'')))])
   \<and> compare_element
     (DataElement (0x0008, 0x0008) ''Image Type'' (Single (Str (replicate 101 (CHR ''a'')))))
     (DataElement (0x0008, 0x0008) ''Image Type'' (Single (Str ''b''))) ''p'' [''Image Type'']
   = (Inr False, [ValueMismatch ''p'' ''Image Type'' None])"
proof -
  have n: "\<And>k. 1 < k \<Longrightarrow> replicate k (CHR ''a'') \<noteq> ''b''"
    by (metis length_replicate length_Cons list.size(3) One_nat_def less_irrefl)
  have u1: "\<not> py_eq (el_value (DataElement (0x0008, 0x0008) ''Image Type''
                                 (Single (Str (replicate 100 (CHR ''a''))))))
                     (el_value (DataElement (0x0008, 0x0008) ''Image Type'' (Single (Str ''b''))))"
    using n [of 100] by (simp add: py_eq_def)
  have u2: "\<not> py_eq (el_value (DataElement (0x0008, 0x0008) ''Image Type''
                                 (Single (Str (replicate 101 (CHR ''a''))))))
                     (el_value (DataElement (0x0008, 0x0008) ''Image Type'' (Single (Str ''b''))))"
    using n [of 101] by (simp add: py_eq_def)
  have s: "\<forall>dss. el_value (DataElement (0x0008, 0x0008) ''Image Type'' (Single (Str ''b'')))
                   \<noteq> Sequence dss"
    by simp
  show ?thesis
    using value_mismatch_entry [OF u1 s, of "''p''" "[''Image Type'']"]
          value_mismatch_entry [OF u2 s, of "''p''" "[''Image Type'']"]
    by simp
qed

section \<open>The file-set matcher: the candidate pairs\<close>


text \<open>
  What the checks of lines 159 to 186 have established when they pass: equally many
  \<^verbatim>\<open>.dcm\<close> files on both sides, file names that parse, and the same slot numbers on both
  sides.
\<close>

lemma group_files_Inr:
  "group_files xnat_dir daris_dir cid s did = Inr (xm, dm) \<longleftrightarrow>
     length (dcm_files daris_dir) = length (dcm_files xnat_dir)
     \<and> xnat_group (dcm_files xnat_dir) [] = Inr xm
     \<and> (\<exists>m. py_max (map (\<lambda>kv. length (snd kv)) xm) = Inr m
              \<and> daris_group m (dcm_files daris_dir) [] = Inr dm)
     \<and> sort (map fst xm) = sort (map fst dm)"
  by (auto simp: group_files_def Let_def split: if_splits sum.splits)






section \<open>The project walker: numeric order\<close>




end
